theory Spec2Isabelle
  imports Main "HOL-Library.Multiset"
begin

section \<open>Data model\<close>

text \<open>
  The order service of \<^verbatim>\<open>src/orders/order.service.js\<close> works on five tables: accounts,
  products, inventories, orders and the activity log. Each table is a list of rows in
  insertion order; a lookup takes the first row that matches, as \<^verbatim>\<open>findByPk\<close> and
  \<^verbatim>\<open>findOne\<close> do. Keys and timestamps are natural numbers; quantities, prices and amounts
  are integers (amounts are read in the smallest currency unit).

  The numbers of the service are JavaScript numbers, that is IEEE doubles. A double holds
  every integer of magnitude up to \<open>2 ^ 53\<close> exactly, and a product or difference of
  integers is computed exactly when its result is in that range; beyond that range the
  service's result is rounded and the integer of this model is not. \<open>js_exact\<close> names
  the range.
\<close>

definition js_exact :: "int \<Rightarrow> bool" where
  "js_exact n = (\<bar>n\<bar> \<le> 2 ^ 53)"

datatype status = Pending | Processing | Shipped | Delivered | Cancelled

fun status_text :: "status \<Rightarrow> string" where
  "status_text Pending = ''pending''"
| "status_text Processing = ''processing''"
| "status_text Shipped = ''shipped''"
| "status_text Delivered = ''delivered''"
| "status_text Cancelled = ''cancelled''"

record account =
  account_id :: nat
  email :: string

record product =
  product_id :: nat
  name :: string
  price :: int
  productStatus :: string
  isAvailable :: bool

record inventory =
  inventory_id :: nat
  inv_productId :: nat
  inv_quantity :: int

record order =
  order_id :: nat
  AccountId :: nat
  productId :: nat
  quantity :: int
  totalAmount :: int
  orderStatus :: status
  shippingAddress :: string
  createdAt :: nat

record activity =
  act_accountId :: nat
  act_orderId :: nat
  act_action :: string
  act_description :: string
  act_ipAddress :: string
  act_browserInfo :: string

text \<open>
  Every operation takes the database and returns its result together with the database
  it leaves behind, also when it throws.

  Every write the service issues (a \<^verbatim>\<open>save()\<close> on a row, a call of the activity logger)
  is also appended to a journal, oldest first, so that the order of the side effects of one
  operation can be read off the state.
\<close>

datatype effect =
    OrderWrite order
  | ActivityWrite activity
  | InventoryWrite inventory
  | ProductWrite product

record db =
  accounts :: "account list"
  products :: "product list"
  inventories :: "inventory list"
  orders :: "order list"
  activities :: "activity list"
  journal :: "effect list"

text \<open>
  The values the service throws. The source throws bare strings; \<open>message\<close> gives the string
  of each. \<open>ReferenceError\<close> is the exception of the JavaScript runtime for an identifier
  that is bound nowhere.
\<close>

datatype error =
    AccountNotFound
  | ProductNotFound
  | ProductUnavailable
  | InventoryMissing
  | InsufficientStock int
  | OrderNotFound
  | CannotUpdateCancelled
  | OrderAlreadyCancelled
  | OrderNotCancellable
  | UnauthorizedAccess
  | CannotProcessCancelled
  | CannotShipCancelled
  | CannotDeliverCancelled
  | ReferenceError string

section \<open>Rendering numbers in template strings\<close>

definition digit :: "nat \<Rightarrow> char" where
  "digit n = ''0123456789'' ! (n mod 10)"

fun show_nat :: "nat \<Rightarrow> string" where
  "show_nat n = (if n < 10 then [digit n] else show_nat (n div 10) @ [digit n])"

declare show_nat.simps [simp del]

definition show_int :: "int \<Rightarrow> string" where
  "show_int i = (if i < 0 then CHR ''-'' # show_nat (nat (- i)) else show_nat (nat i))"

definition quoted :: "string \<Rightarrow> string" where
  "quoted s = [CHR 0x27] @ s @ [CHR 0x27]"

fun message :: "error \<Rightarrow> string" where
  "message AccountNotFound = ''Account not found''"
| "message ProductNotFound = ''Product not found''"
| "message ProductUnavailable = ''Product is not available''"
| "message InventoryMissing = ''Inventory not found for this product''"
| "message (InsufficientStock q) =
     ''Insufficient stock. Only '' @ show_int q @ '' items available.''"
| "message OrderNotFound = ''Order not found''"
| "message CannotUpdateCancelled = ''Cannot update a cancelled order''"
| "message OrderAlreadyCancelled = ''Order is already cancelled''"
| "message OrderNotCancellable = ''Cannot cancel order that has been shipped or delivered''"
| "message UnauthorizedAccess = ''Order not found or unauthorized access''"
| "message CannotProcessCancelled = ''Cannot process a cancelled order''"
| "message CannotShipCancelled = ''Cannot ship a cancelled order''"
| "message CannotDeliverCancelled = ''Cannot deliver a cancelled order''"
| "message (ReferenceError x) = x @ '' is not defined''"

section \<open>The stores and the activity logger\<close>

text \<open>
  Modelled from the spec: the persistence layer \<^verbatim>\<open>_helpers/db\<close> and the Sequelize models are
  not part of the source. The store contract of the specification is followed: lookup by
  key gives the row or nothing, \<open>create\<close> adds a row under a key the store chooses,
  \<open>persist\<close> overwrites the row that has the key of the given one. The key of a new order
  is one more than the largest key in the table, its status column defaults to
  \<open>pending\<close>, and its \<open>createdAt\<close> is the time of the insertion.
\<close>

definition findAccount :: "db \<Rightarrow> nat \<Rightarrow> account option" where
  "findAccount s i = find (\<lambda>a. account_id a = i) (accounts s)"

definition findProduct :: "db \<Rightarrow> nat \<Rightarrow> product option" where
  "findProduct s i = find (\<lambda>p. product_id p = i) (products s)"

definition findInventory :: "db \<Rightarrow> nat \<Rightarrow> inventory option" where
  "findInventory s pid = find (\<lambda>r. inv_productId r = pid) (inventories s)"

definition getOrderById :: "db \<Rightarrow> nat \<Rightarrow> order option" where
  "getOrderById s i = find (\<lambda>r. order_id r = i) (orders s)"

definition new_order_id :: "db \<Rightarrow> nat" where
  "new_order_id s = Suc (fold max (map order_id (orders s)) 0)"

definition default_status :: status where
  "default_status = Pending"

definition insert_order :: "db \<Rightarrow> order \<Rightarrow> db" where
  "insert_order s r = s\<lparr>orders := orders s @ [r], journal := journal s @ [OrderWrite r]\<rparr>"

definition save_order :: "db \<Rightarrow> order \<Rightarrow> db" where
  "save_order s r =
     s\<lparr>orders := map (\<lambda>x. if order_id x = order_id r then r else x) (orders s),
       journal := journal s @ [OrderWrite r]\<rparr>"

definition save_inventory :: "db \<Rightarrow> inventory \<Rightarrow> db" where
  "save_inventory s r =
     s\<lparr>inventories := map (\<lambda>x. if inventory_id x = inventory_id r then r else x) (inventories s),
       journal := journal s @ [InventoryWrite r]\<rparr>"

definition save_product :: "db \<Rightarrow> product \<Rightarrow> db" where
  "save_product s r =
     s\<lparr>products := map (\<lambda>x. if product_id x = product_id r then r else x) (products s),
       journal := journal s @ [ProductWrite r]\<rparr>"

text \<open>
  Modelled from the spec: \<^verbatim>\<open>./orderActivityLogger\<close> is not part of the source. Its
  \<open>record\<close> operation appends one immutable entry to the activity log.
\<close>

definition logOrderActivity ::
  "db \<Rightarrow> nat \<Rightarrow> nat \<Rightarrow> string \<Rightarrow> string \<Rightarrow> string \<Rightarrow> string \<Rightarrow> db" where
  "logOrderActivity s accountId orderId action description ipAddress browserInfo =
     (let a = \<lparr>act_accountId = accountId, act_orderId = orderId, act_action = action,
               act_description = description, act_ipAddress = ipAddress,
               act_browserInfo = browserInfo\<rparr>
      in s\<lparr>activities := activities s @ [a], journal := journal s @ [ActivityWrite a]\<rparr>)"

section \<open>Queries\<close>

record account_proj =
  ap_id :: nat
  ap_email :: string

record product_proj =
  pp_id :: nat
  pp_name :: string
  pp_price :: int

text \<open>A row of \<open>getAllOrders\<close>: the seven listed attributes and the two joined projections.\<close>

record listing =
  l_id :: nat
  l_totalAmount :: int
  l_orderStatus :: status
  l_shippingAddress :: string
  l_createdAt :: nat
  l_AccountId :: nat
  l_quantity :: int
  l_Account :: "account_proj option"
  l_Product :: "product_proj option"

definition account_projection :: "db \<Rightarrow> nat \<Rightarrow> account_proj option" where
  "account_projection s i =
     map_option (\<lambda>a. \<lparr>ap_id = account_id a, ap_email = email a\<rparr>) (findAccount s i)"

definition product_projection :: "db \<Rightarrow> nat \<Rightarrow> product_proj option" where
  "product_projection s i =
     map_option (\<lambda>p. \<lparr>pp_id = product_id p, pp_name = name p, pp_price = price p\<rparr>)
       (findProduct s i)"

definition whereCondition :: "string \<Rightarrow> nat \<Rightarrow> order \<Rightarrow> bool" where
  "whereCondition role accountId r =
     (if role = ''User''
      then AccountId r = accountId \<and> orderStatus r \<noteq> Cancelled
      else orderStatus r \<in> set [Pending, Processing, Shipped, Delivered])"

definition listing_of :: "db \<Rightarrow> string \<Rightarrow> order \<Rightarrow> listing" where
  "listing_of s role r =
     \<lparr>l_id = order_id r, l_totalAmount = totalAmount r, l_orderStatus = orderStatus r,
      l_shippingAddress = shippingAddress r, l_createdAt = createdAt r,
      l_AccountId = AccountId r, l_quantity = quantity r,
      l_Account = (if role \<noteq> ''User'' then account_projection s (AccountId r) else None),
      l_Product = product_projection s (productId r)\<rparr>"

text \<open>
  \<^verbatim>\<open>order: [['createdAt', 'DESC']]\<close>: the selected rows by falling creation time. The order
  of rows with equal creation time is the store's choice; here it is the reverse of the
  stable ascending sort.
\<close>

definition getAllOrders :: "db \<Rightarrow> string \<Rightarrow> nat \<Rightarrow> listing list" where
  "getAllOrders s role accountId =
     map (listing_of s role)
       (rev (sort_key createdAt (filter (whereCondition role accountId) (orders s))))"

definition trackOrderStatus :: "db \<Rightarrow> nat \<Rightarrow> nat \<Rightarrow> error + status" where
  "trackOrderStatus s i accountId =
     (case find (\<lambda>r. order_id r = i \<and> AccountId r = accountId) (orders s) of
        None \<Rightarrow> Inl UnauthorizedAccess
      | Some r \<Rightarrow> Inr (orderStatus r))"

text \<open>
  \<open>getOrderActivities\<close> calls \<^verbatim>\<open>orderActivityLogger.getOrderActivities\<close>, but the module
  binds only \<^verbatim>\<open>logOrderActivity\<close> (line 3): evaluating the identifier
  \<^verbatim>\<open>orderActivityLogger\<close> throws before any query is made. The filters are opaque.
\<close>

definition getOrderActivities :: "db \<Rightarrow> nat \<Rightarrow> nat \<Rightarrow> 'f \<Rightarrow> error + activity list" where
  "getOrderActivities s orderId accountId filters =
     (case getOrderById s orderId of
        None \<Rightarrow> Inl OrderNotFound
      | Some r \<Rightarrow> Inl (ReferenceError ''orderActivityLogger''))"

section \<open>Order creation\<close>

text \<open>
  Modelled from the spec: the shape of \<open>params\<close> is declared nowhere in the source. It has
  the fields of the input contract of order creation (AccountId, productId, optional
  quantity, shippingAddress, ipAddress, browserInfo). The spread \<^verbatim>\<open>...params\<close> copies
  whatever the caller passes, so \<open>params\<close> may also carry order columns of its own:
  an \<open>orderStatus\<close> or a \<open>createdAt\<close> among them reaches the new row in place of the
  default. Quantity, totalAmount, productId and AccountId are overwritten after the spread,
  and ipAddress and browserInfo are not columns of an order. The key is not among the
  columns \<open>params\<close> carries here: the key of a new row is the store's to assign.
\<close>

record create_params =
  p_AccountId :: nat
  p_productId :: nat
  p_quantity :: "int option"
  p_shippingAddress :: string
  p_ipAddress :: string
  p_browserInfo :: string
  p_orderStatus :: "status option"
  p_createdAt :: "nat option"

text \<open>\<^verbatim>\<open>params.quantity || 1\<close>: an absent quantity and the falsy number 0 both give 1.\<close>

definition requestedQuantity :: "create_params \<Rightarrow> int" where
  "requestedQuantity params =
     (case p_quantity params of None \<Rightarrow> 1 | Some k \<Rightarrow> if k = 0 then 1 else k)"

record order_detail =
  d_order :: order
  d_Account :: "account_proj option"
  d_Product :: "product_proj option"

definition fetch_detail :: "db \<Rightarrow> nat \<Rightarrow> order_detail option" where
  "fetch_detail s i =
     map_option
       (\<lambda>r. \<lparr>d_order = r, d_Account = account_projection s (AccountId r),
             d_Product = product_projection s (productId r)\<rparr>)
       (getOrderById s i)"

definition createOrder ::
  "db \<Rightarrow> nat \<Rightarrow> create_params \<Rightarrow> (error + order_detail option) \<times> db" where
  "createOrder s now params =
     (case findAccount s (p_AccountId params) of
        None \<Rightarrow> (Inl AccountNotFound, s)
      | Some account \<Rightarrow>
         (case findProduct s (p_productId params) of
            None \<Rightarrow> (Inl ProductNotFound, s)
          | Some product \<Rightarrow>
             if productStatus product \<noteq> ''active'' then (Inl ProductUnavailable, s)
             else
              (case findInventory s (product_id product) of
                 None \<Rightarrow> (Inl InventoryMissing, s)
               | Some inventory \<Rightarrow>
                  if requestedQuantity params > inv_quantity inventory
                  then (Inl (InsufficientStock (inv_quantity inventory)), s)
                  else
                   (let amount = price product * requestedQuantity params;
                        order = \<lparr>order_id = new_order_id s,
                                 AccountId = account_id account,
                                 productId = product_id product,
                                 quantity = requestedQuantity params,
                                 totalAmount = amount,
                                 orderStatus = (case p_orderStatus params of
                                                  None \<Rightarrow> default_status
                                                | Some st \<Rightarrow> st),
                                 shippingAddress = p_shippingAddress params,
                                 createdAt = (case p_createdAt params of
                                                None \<Rightarrow> now
                                              | Some t \<Rightarrow> t)\<rparr>;
                        s1 = insert_order s order;
                        s2 = logOrderActivity s1 (account_id account) (order_id order) ''created''
                               (''Created order for '' @ show_int (requestedQuantity params)
                                  @ '' units of product '' @ name product)
                               (p_ipAddress params) (p_browserInfo params);
                        s3 = save_inventory s2
                               (inventory\<lparr>inv_quantity :=
                                  inv_quantity inventory - requestedQuantity params\<rparr>)
                    in (Inr (fetch_detail s3 (order_id order)), s3)))))"

section \<open>Updates and status transitions\<close>

text \<open>
  The \<open>params\<close> of \<open>updateOrder\<close> are an arbitrary bag of order columns;
  \<^verbatim>\<open>Object.assign(order, params)\<close> overwrites each column the bag carries and keeps the
  others. The key column is left out of the bag: the row is saved under its own key.
\<close>

record order_patch =
  u_AccountId :: "nat option"
  u_productId :: "nat option"
  u_quantity :: "int option"
  u_totalAmount :: "int option"
  u_orderStatus :: "status option"
  u_shippingAddress :: "string option"
  u_createdAt :: "nat option"

definition assign :: "order \<Rightarrow> order_patch \<Rightarrow> order" where
  "assign r p =
     r\<lparr>AccountId := (case u_AccountId p of None \<Rightarrow> AccountId r | Some v \<Rightarrow> v),
       productId := (case u_productId p of None \<Rightarrow> productId r | Some v \<Rightarrow> v),
       quantity := (case u_quantity p of None \<Rightarrow> quantity r | Some v \<Rightarrow> v),
       totalAmount := (case u_totalAmount p of None \<Rightarrow> totalAmount r | Some v \<Rightarrow> v),
       orderStatus := (case u_orderStatus p of None \<Rightarrow> orderStatus r | Some v \<Rightarrow> v),
       shippingAddress := (case u_shippingAddress p of None \<Rightarrow> shippingAddress r | Some v \<Rightarrow> v),
       createdAt := (case u_createdAt p of None \<Rightarrow> createdAt r | Some v \<Rightarrow> v)\<rparr>"

definition updateOrder ::
  "db \<Rightarrow> nat \<Rightarrow> order_patch \<Rightarrow> nat \<Rightarrow> string \<Rightarrow> string \<Rightarrow> (error + order) \<times> db" where
  "updateOrder s i params accountId ipAddress browserInfo =
     (case getOrderById s i of
        None \<Rightarrow> (Inl OrderNotFound, s)
      | Some order \<Rightarrow>
         if orderStatus order = Cancelled then (Inl CannotUpdateCancelled, s)
         else
          (let oldStatus = orderStatus order;
               order' = assign order params;
               s1 = save_order s order';
               s2 = logOrderActivity s1 accountId (order_id order') ''updated''
                      (''Updated order. Status changed from '' @ quoted (status_text oldStatus)
                         @ '' to '' @ quoted (status_text (orderStatus order')))
                      ipAddress browserInfo
           in (Inr order', s2)))"

definition cancelOrder ::
  "db \<Rightarrow> nat \<Rightarrow> nat \<Rightarrow> string \<Rightarrow> string \<Rightarrow> (error + order) \<times> db" where
  "cancelOrder s i accountId ipAddress browserInfo =
     (case getOrderById s i of
        None \<Rightarrow> (Inl OrderNotFound, s)
      | Some order \<Rightarrow>
         if orderStatus order = Cancelled then (Inl OrderAlreadyCancelled, s)
         else if orderStatus order \<in> set [Shipped, Delivered] then (Inl OrderNotCancellable, s)
         else
          (let oldStatus = orderStatus order;
               order' = order\<lparr>orderStatus := Cancelled\<rparr>;
               s1 = save_order s order';
               s2 = logOrderActivity s1 accountId (order_id order') ''cancelled''
                      (''Cancelled order. Previous status: '' @ status_text oldStatus)
                      ipAddress browserInfo;
               s3 = (case findProduct s2 (productId order') of
                       None \<Rightarrow> s2
                     | Some product \<Rightarrow> save_product s2 (product\<lparr>isAvailable := False\<rparr>))
           in (Inr order', s3)))"

definition processOrder ::
  "db \<Rightarrow> nat \<Rightarrow> nat \<Rightarrow> string \<Rightarrow> string \<Rightarrow> (error + unit) \<times> db" where
  "processOrder s i accountId ipAddress browserInfo =
     (case getOrderById s i of
        None \<Rightarrow> (Inl OrderNotFound, s)
      | Some order \<Rightarrow>
         if orderStatus order = Cancelled then (Inl CannotProcessCancelled, s)
         else
          (let oldStatus = orderStatus order;
               order' = order\<lparr>orderStatus := Processing\<rparr>;
               s1 = save_order s order';
               s2 = logOrderActivity s1 accountId (order_id order') ''processed''
                      (''Processed order. Status changed from '' @ quoted (status_text oldStatus)
                         @ '' to '' @ quoted ''processing'')
                      ipAddress browserInfo
           in (Inr (), s2)))"

definition shipOrder :: "db \<Rightarrow> nat \<Rightarrow> (error + unit) \<times> db" where
  "shipOrder s i =
     (case getOrderById s i of
        None \<Rightarrow> (Inl OrderNotFound, s)
      | Some order \<Rightarrow>
         if orderStatus order = Cancelled then (Inl CannotShipCancelled, s)
         else (Inr (), save_order s (order\<lparr>orderStatus := Shipped\<rparr>)))"

definition deliverOrder :: "db \<Rightarrow> nat \<Rightarrow> (error + unit) \<times> db" where
  "deliverOrder s i =
     (case getOrderById s i of
        None \<Rightarrow> (Inl OrderNotFound, s)
      | Some order \<Rightarrow>
         if orderStatus order = Cancelled then (Inl CannotDeliverCancelled, s)
         else (Inr (), save_order s (order\<lparr>orderStatus := Delivered\<rparr>)))"

section \<open>Sequences of operations\<close>

text \<open>
  A request is one call of a writing operation with its arguments; \<open>perform\<close> gives the
  database after the call (unchanged when the call throws) and \<open>run\<close> performs a list of
  requests from left to right.
\<close>

datatype request =
    Create nat create_params
  | Update nat order_patch nat string string
  | Cancel nat nat string string
  | Process nat nat string string
  | Ship nat
  | Deliver nat

fun perform :: "db \<Rightarrow> request \<Rightarrow> db" where
  "perform s (Create now params) = snd (createOrder s now params)"
| "perform s (Update i params a ip br) = snd (updateOrder s i params a ip br)"
| "perform s (Cancel i a ip br) = snd (cancelOrder s i a ip br)"
| "perform s (Process i a ip br) = snd (processOrder s i a ip br)"
| "perform s (Ship i) = snd (shipOrder s i)"
| "perform s (Deliver i) = snd (deliverOrder s i)"

definition run :: "db \<Rightarrow> request list \<Rightarrow> db" where
  "run s reqs = foldl perform s reqs"

text \<open>
  The only request that can write the \<open>totalAmount\<close> of order \<open>i\<close> is an update of order
  \<open>i\<close> whose bag carries that column.
\<close>

fun overwrites_totalAmount :: "nat \<Rightarrow> request \<Rightarrow> bool" where
  "overwrites_totalAmount i (Update j params a ip br) = (j = i \<and> u_totalAmount params \<noteq> None)"
| "overwrites_totalAmount i other = False"

text \<open>The bag that carries no column.\<close>

definition empty_patch :: order_patch where
  "empty_patch =
     \<lparr>u_AccountId = None, u_productId = None, u_quantity = None, u_totalAmount = None,
      u_orderStatus = None, u_shippingAddress = None, u_createdAt = None\<rparr>"

section \<open>A worked database\<close>

text \<open>
  Two accounts, an active and an inactive product with their stock, and one order in each
  status. The lamp costs 10 and five are in stock, as in the example of the specification.
\<close>

definition shop :: db where
  "shop =
     \<lparr>accounts = [\<lparr>account_id = 7, email = ''ann@example.org''\<rparr>,
                  \<lparr>account_id = 8, email = ''bob@example.org''\<rparr>],
      products = [\<lparr>product_id = 3, name = ''lamp'', price = 10, productStatus = ''active'',
                    isAvailable = True\<rparr>,
                  \<lparr>product_id = 4, name = ''desk'', price = 250, productStatus = ''inactive'',
                    isAvailable = True\<rparr>,
                  \<lparr>product_id = 5, name = ''vase'', price = 40, productStatus = ''active'',
                    isAvailable = True\<rparr>],
      inventories = [\<lparr>inventory_id = 1, inv_productId = 3, inv_quantity = 5\<rparr>,
                     \<lparr>inventory_id = 2, inv_productId = 4, inv_quantity = 9\<rparr>],
      orders = [\<lparr>order_id = 1, AccountId = 7, productId = 3, quantity = 3, totalAmount = 30,
                  orderStatus = Pending, shippingAddress = ''1 Main St'', createdAt = 10\<rparr>,
                \<lparr>order_id = 2, AccountId = 8, productId = 3, quantity = 1, totalAmount = 10,
                  orderStatus = Shipped, shippingAddress = ''2 Side St'', createdAt = 20\<rparr>,
                \<lparr>order_id = 3, AccountId = 7, productId = 4, quantity = 2, totalAmount = 500,
                  orderStatus = Cancelled, shippingAddress = ''1 Main St'', createdAt = 30\<rparr>,
                \<lparr>order_id = 4, AccountId = 8, productId = 4, quantity = 1, totalAmount = 250,
                  orderStatus = Delivered, shippingAddress = ''2 Side St'', createdAt = 40\<rparr>,
                \<lparr>order_id = 5, AccountId = 7, productId = 3, quantity = 1, totalAmount = 10,
                  orderStatus = Processing, shippingAddress = ''1 Main St'', createdAt = 50\<rparr>],
      activities = [],
      journal = []\<rparr>"

definition lamp :: product where
  "lamp = \<lparr>product_id = 3, name = ''lamp'', price = 10, productStatus = ''active'',
            isAvailable = True\<rparr>"

definition lamp_stock :: inventory where
  "lamp_stock = \<lparr>inventory_id = 1, inv_productId = 3, inv_quantity = 5\<rparr>"

definition ann :: account where
  "ann = \<lparr>account_id = 7, email = ''ann@example.org''\<rparr>"

definition request_of :: "nat \<Rightarrow> nat \<Rightarrow> int option \<Rightarrow> create_params" where
  "request_of a pid k =
     \<lparr>p_AccountId = a, p_productId = pid, p_quantity = k, p_shippingAddress = ''1 Main St'',
      p_ipAddress = ''192.0.2.1'', p_browserInfo = ''Firefox'', p_orderStatus = None,
      p_createdAt = None\<rparr>"

section \<open>Facts about the stores\<close>

lemma find_append_eq:
  "find P (xs @ ys) = (case find P xs of None \<Rightarrow> find P ys | Some x \<Rightarrow> Some x)"
  by (induction xs) auto

lemma find_key_holds: "find P xs = Some x \<Longrightarrow> P x"
  by (induction xs) (auto split: if_splits)

lemma fold_max_ge_init: "(a::nat) \<le> fold max ns a"
proof (induction ns arbitrary: a)
  case Nil
  show ?case by simp
next
  case (Cons n ns)
  have "max n a \<le> fold max ns (max n a)" by (rule Cons.IH)
  then show ?case by simp
qed

lemma fold_max_ge_elem: "n \<in> set ns \<Longrightarrow> (n::nat) \<le> fold max ns a"
proof (induction ns arbitrary: a)
  case Nil
  then show ?case by simp
next
  case (Cons m ns)
  show ?case
  proof (cases "n = m")
    case True
    have "max m a \<le> fold max ns (max m a)" by (rule fold_max_ge_init)
    with True show ?thesis by simp
  next
    case False
    with Cons.prems have "n \<in> set ns" by simp
    then have "n \<le> fold max ns (max m a)" by (rule Cons.IH)
    then show ?thesis by simp
  qed
qed

lemma new_order_id_fresh: "r \<in> set (orders s) \<Longrightarrow> order_id r < new_order_id s"
proof -
  assume "r \<in> set (orders s)"
  then have "order_id r \<in> set (map order_id (orders s))" by simp
  then have "order_id r \<le> fold max (map order_id (orders s)) 0" by (rule fold_max_ge_elem)
  then show ?thesis by (simp add: new_order_id_def)
qed

lemma getOrderById_new_none: "getOrderById s (new_order_id s) = None"
  unfolding getOrderById_def find_None_iff by (auto dest: new_order_id_fresh)

lemma find_after_save_inventory:
  assumes "find (\<lambda>r. inv_productId r = pid) xs = Some old"
      and "inv_productId new = pid"
      and "inventory_id new = inventory_id old"
  shows "find (\<lambda>r. inv_productId r = pid)
           (map (\<lambda>x. if inventory_id x = inventory_id new then new else x) xs) = Some new"
  using assms by (induction xs) (auto split: if_splits)

text \<open>
  A successful run of \<open>createOrder\<close>, for any requested quantity that passes the stock check:
  the result and the database left behind, written out.
\<close>

lemma createOrder_run:
  assumes account: "findAccount s (p_AccountId params) = Some account"
      and product: "findProduct s (p_productId params) = Some product"
      and active: "productStatus product = ''active''"
      and inventory: "findInventory s (product_id product) = Some inventory"
      and enough: "requestedQuantity params \<le> inv_quantity inventory"
      and created: "created = \<lparr>order_id = new_order_id s, AccountId = account_id account,
                       productId = product_id product, quantity = requestedQuantity params,
                       totalAmount = price product * requestedQuantity params,
                       orderStatus = (case p_orderStatus params of
                                        None \<Rightarrow> Pending | Some st \<Rightarrow> st),
                       shippingAddress = p_shippingAddress params,
                       createdAt = (case p_createdAt params of
                                      None \<Rightarrow> now | Some t \<Rightarrow> t)\<rparr>"
      and logged: "logged = \<lparr>act_accountId = account_id account, act_orderId = new_order_id s,
                      act_action = ''created'',
                      act_description = ''Created order for ''
                        @ show_int (requestedQuantity params)
                        @ '' units of product '' @ name product,
                      act_ipAddress = p_ipAddress params,
                      act_browserInfo = p_browserInfo params\<rparr>"
      and stocked: "stocked = inventory\<lparr>inv_quantity :=
                      inv_quantity inventory - requestedQuantity params\<rparr>"
  shows "createOrder s now params =
           (Inr (Some \<lparr>d_order = created,
                        d_Account = account_projection s (account_id account),
                        d_Product = product_projection s (product_id product)\<rparr>),
            s\<lparr>orders := orders s @ [created],
              activities := activities s @ [logged],
              inventories := map (\<lambda>x. if inventory_id x = inventory_id inventory
                                       then stocked else x) (inventories s),
              journal := journal s @ [OrderWrite created, ActivityWrite logged,
                                      InventoryWrite stocked]\<rparr>)"
proof -
  have fresh: "find (\<lambda>r. order_id r = new_order_id s) (orders s) = None"
    using getOrderById_new_none [of s] by (simp add: getOrderById_def)
  have fetched: "find (\<lambda>r. order_id r = new_order_id s) (orders s @ [created]) = Some created"
    by (simp add: find_append_eq fresh created)
  show ?thesis
    using account product active inventory enough fetched
    unfolding created logged stocked createOrder_def default_status_def
    by (simp add: Let_def insert_order_def
          logOrderActivity_def save_inventory_def fetch_detail_def getOrderById_def
          account_projection_def product_projection_def findAccount_def findProduct_def)
qed

lemma findInventory_after_decrement:
  assumes "findInventory s pid = Some inventory"
  shows "findInventory
           (s\<lparr>orders := os, activities := as,
              inventories := map (\<lambda>x. if inventory_id x = inventory_id inventory
                                       then inventory\<lparr>inv_quantity := n\<rparr> else x)
                               (inventories s),
              journal := js\<rparr>) pid
         = Some (inventory\<lparr>inv_quantity := n\<rparr>)"
proof -
  have old: "find (\<lambda>r. inv_productId r = pid) (inventories s) = Some inventory"
    using assms by (simp add: findInventory_def)
  then have "inv_productId inventory = pid"
    by (rule find_key_holds)
  then show ?thesis
    using find_after_save_inventory [OF old, of "inventory\<lparr>inv_quantity := n\<rparr>"]
    by (simp add: findInventory_def)
qed

section \<open>Order creation within the stock\<close>

text \<open>
  Claim C1, as amended. For an existing account, an active product and its inventory
  record at quantity \<open>q\<close>, \<open>createOrder\<close> with a requested quantity \<open>k\<close>, \<open>1 \<le> k \<le> q\<close>,
  called with params that carry no \<open>orderStatus\<close> of their own, and with \<open>q\<close> and
  \<open>price * k\<close> in the range where JavaScript numbers are exact, succeeds. The order it
  returns has \<open>totalAmount = price * k\<close> and status \<open>pending\<close>, under a key no order had
  before; the order table grows by exactly this row, the activity log by exactly one
  entry, tagged \<open>created\<close>, for this order and account; the product's inventory record
  afterwards holds \<open>q - k\<close>; and the journal shows the three writes in the order: order,
  activity, inventory.
\<close>

theorem createOrder_within_stock:
  assumes account: "findAccount s (p_AccountId params) = Some account"
      and product: "findProduct s (p_productId params) = Some product"
      and active: "productStatus product = ''active''"
      and inventory: "findInventory s (product_id product) = Some inventory"
      and q: "inv_quantity inventory = q"
      and k: "p_quantity params = Some k" "1 \<le> k" "k \<le> q"
      and plain: "p_orderStatus params = None"
      and exact: "js_exact q" "js_exact (price product * k)"
  shows "\<exists>created logged stocked s'.
           createOrder s now params =
             (Inr (Some \<lparr>d_order = created,
                          d_Account = account_projection s (account_id account),
                          d_Product = product_projection s (product_id product)\<rparr>), s') \<and>
           created = \<lparr>order_id = new_order_id s, AccountId = account_id account,
                       productId = product_id product, quantity = k,
                       totalAmount = price product * k, orderStatus = Pending,
                       shippingAddress = p_shippingAddress params,
                       createdAt = (case p_createdAt params of
                                      None \<Rightarrow> now | Some t \<Rightarrow> t)\<rparr> \<and>
           getOrderById s (order_id created) = None \<and>
           orders s' = orders s @ [created] \<and>
           activities s' = activities s @ [logged] \<and>
           act_action logged = ''created'' \<and>
           act_orderId logged = order_id created \<and>
           act_accountId logged = account_id account \<and>
           stocked = inventory\<lparr>inv_quantity := q - k\<rparr> \<and>
           findInventory s' (product_id product) = Some stocked \<and>
           journal s' = journal s @ [OrderWrite created, ActivityWrite logged,
                                     InventoryWrite stocked] \<and>
           accounts s' = accounts s \<and> products s' = products s"
proof -
  have rq: "requestedQuantity params = k"
    using k by (simp add: requestedQuantity_def)
  define created where
    "created = \<lparr>order_id = new_order_id s, AccountId = account_id account,
                 productId = product_id product, quantity = requestedQuantity params,
                 totalAmount = price product * requestedQuantity params,
                 orderStatus = (case p_orderStatus params of
                                  None \<Rightarrow> Pending | Some st \<Rightarrow> st),
                 shippingAddress = p_shippingAddress params,
                 createdAt = (case p_createdAt params of None \<Rightarrow> now | Some t \<Rightarrow> t)\<rparr>"
  define logged where
    "logged = \<lparr>act_accountId = account_id account, act_orderId = new_order_id s,
                act_action = ''created'',
                act_description = ''Created order for ''
                  @ show_int (requestedQuantity params)
                  @ '' units of product '' @ name product,
                act_ipAddress = p_ipAddress params,
                act_browserInfo = p_browserInfo params\<rparr>"
  define stocked where
    "stocked = inventory\<lparr>inv_quantity := inv_quantity inventory - requestedQuantity params\<rparr>"
  define s' where
    "s' = s\<lparr>orders := orders s @ [created],
            activities := activities s @ [logged],
            inventories := map (\<lambda>x. if inventory_id x = inventory_id inventory
                                     then stocked else x) (inventories s),
            journal := journal s @ [OrderWrite created, ActivityWrite logged,
                                    InventoryWrite stocked]\<rparr>"
  have enough: "requestedQuantity params \<le> inv_quantity inventory"
    using rq q k(3) by simp
  have run: "createOrder s now params =
             (Inr (Some \<lparr>d_order = created,
                          d_Account = account_projection s (account_id account),
                          d_Product = product_projection s (product_id product)\<rparr>), s')"
    unfolding s'_def
    by (rule createOrder_run [OF account product active inventory enough
                                 created_def logged_def stocked_def])
  have stock: "findInventory s' (product_id product) = Some stocked"
    unfolding s'_def stocked_def by (rule findInventory_after_decrement [OF inventory])
  have fresh: "getOrderById s (order_id created) = None"
    by (simp add: created_def getOrderById_new_none)
  show ?thesis
    apply (rule exI [of _ created], rule exI [of _ logged])
    apply (rule exI [of _ stocked], rule exI [of _ s'])
    using run stock fresh
    by (simp add: created_def logged_def stocked_def s'_def rq q plain)
qed

theorem createOrder_within_stock_witness:
  "\<exists>created logged s'.
     createOrder shop 100 (request_of 7 3 (Some 3)) =
       (Inr (Some \<lparr>d_order = created,
                    d_Account = Some \<lparr>ap_id = 7, ap_email = ''ann@example.org''\<rparr>,
                    d_Product = Some \<lparr>pp_id = 3, pp_name = ''lamp'', pp_price = 10\<rparr>\<rparr>), s') \<and>
     order_id created = 6 \<and> quantity created = 3 \<and> totalAmount created = 30 \<and>
     orderStatus created = Pending \<and>
     orders s' = orders shop @ [created] \<and>
     activities s' = [logged] \<and> act_action logged = ''created'' \<and>
     findInventory s' 3 = Some \<lparr>inventory_id = 1, inv_productId = 3, inv_quantity = 2\<rparr> \<and>
     journal s' = [OrderWrite created, ActivityWrite logged,
                   InventoryWrite \<lparr>inventory_id = 1, inv_productId = 3, inv_quantity = 2\<rparr>]"
proof -
  have account: "findAccount shop (p_AccountId (request_of 7 3 (Some 3))) = Some ann"
    by (simp add: findAccount_def shop_def request_of_def ann_def)
  have product: "findProduct shop (p_productId (request_of 7 3 (Some 3))) = Some lamp"
    by (simp add: findProduct_def shop_def request_of_def lamp_def)
  have active: "productStatus lamp = ''active''"
    by (simp add: lamp_def)
  have inventory: "findInventory shop (product_id lamp) = Some lamp_stock"
    by (simp add: findInventory_def shop_def lamp_def lamp_stock_def)
  have q: "inv_quantity lamp_stock = 5"
    by (simp add: lamp_stock_def)
  have k: "p_quantity (request_of 7 3 (Some 3)) = Some 3"
    by (simp add: request_of_def)
  have bounds: "(1::int) \<le> 3" "(3::int) \<le> 5"
    by simp_all
  have plain: "p_orderStatus (request_of 7 3 (Some 3)) = None"
    by (simp add: request_of_def)
  have exact: "js_exact 5" "js_exact (price lamp * 3)"
    by (simp_all add: js_exact_def lamp_def)
  have id: "new_order_id shop = 6"
    by (simp add: new_order_id_def shop_def)
  have aproj: "account_projection shop 7
                 = Some \<lparr>ap_id = 7, ap_email = ''ann@example.org''\<rparr>"
    by (simp add: account_projection_def findAccount_def shop_def ann_def)
  have pproj: "product_projection shop 3
                 = Some \<lparr>pp_id = 3, pp_name = ''lamp'', pp_price = 10\<rparr>"
    by (simp add: product_projection_def findProduct_def shop_def lamp_def)
  have empty: "activities shop = []" "journal shop = []"
    by (simp_all add: shop_def)
  from createOrder_within_stock
         [OF account product active inventory q k bounds plain exact, of 100]
  obtain created logged stocked s' where
    "createOrder shop 100 (request_of 7 3 (Some 3)) =
       (Inr (Some \<lparr>d_order = created,
                    d_Account = account_projection shop (account_id ann),
                    d_Product = product_projection shop (product_id lamp)\<rparr>), s')"
    "created = \<lparr>order_id = new_order_id shop, AccountId = account_id ann,
                 productId = product_id lamp, quantity = 3,
                 totalAmount = price lamp * 3, orderStatus = Pending,
                 shippingAddress = p_shippingAddress (request_of 7 3 (Some 3)),
                 createdAt = (case p_createdAt (request_of 7 3 (Some 3)) of
                                None \<Rightarrow> 100 | Some t \<Rightarrow> t)\<rparr>"
    "orders s' = orders shop @ [created]"
    "activities s' = activities shop @ [logged]"
    "act_action logged = ''created''"
    "stocked = lamp_stock\<lparr>inv_quantity := 5 - 3\<rparr>"
    "findInventory s' (product_id lamp) = Some stocked"
    "journal s' = journal shop @ [OrderWrite created, ActivityWrite logged,
                                  InventoryWrite stocked]"
    by blast
  then show ?thesis
    by (intro exI [of _ created] exI [of _ logged] exI [of _ s'])
       (simp add: aproj pproj empty id lamp_def ann_def lamp_stock_def)
qed

text \<open>
  Claim C1, as stated, promises the status \<open>pending\<close> for every call within the stock.
  Three lamps are ordered from a stock of five with params that also carry
  \<^verbatim>\<open>orderStatus: 'shipped'\<close>: the call succeeds, and the order is returned and stored with
  status \<open>shipped\<close>.
\<close>

theorem createOrder_spread_status_counterexample:
  "fst (createOrder shop 100 ((request_of 7 3 (Some 3))\<lparr>p_orderStatus := Some Shipped\<rparr>)) =
     Inr (Some \<lparr>d_order = \<lparr>order_id = 6, AccountId = 7, productId = 3, quantity = 3,
                            totalAmount = 30, orderStatus = Shipped,
                            shippingAddress = ''1 Main St'', createdAt = 100\<rparr>,
                 d_Account = Some \<lparr>ap_id = 7, ap_email = ''ann@example.org''\<rparr>,
                 d_Product = Some \<lparr>pp_id = 3, pp_name = ''lamp'', pp_price = 10\<rparr>\<rparr>) \<and>
   map_option orderStatus
     (getOrderById
        (snd (createOrder shop 100 ((request_of 7 3 (Some 3))\<lparr>p_orderStatus := Some Shipped\<rparr>)))
        6) = Some Shipped"
  by (simp add: createOrder_def findAccount_def findProduct_def findInventory_def
        requestedQuantity_def new_order_id_def Let_def insert_order_def logOrderActivity_def
        default_status_def
        save_inventory_def fetch_detail_def getOrderById_def account_projection_def
        product_projection_def request_of_def shop_def)

section \<open>Order creation beyond the stock\<close>

text \<open>
  Claim C2. For an existing account, an active product and its inventory record at
  quantity \<open>q\<close>, \<open>createOrder\<close> with a requested quantity \<open>k > q\<close> throws
  \<open>InsufficientStock\<close> carrying \<open>q\<close> and leaves the whole database as it was: no order
  row, no activity, no write in the journal, the inventory record untouched.
\<close>

theorem createOrder_beyond_stock:
  assumes account: "findAccount s (p_AccountId params) = Some account"
      and product: "findProduct s (p_productId params) = Some product"
      and active: "productStatus product = ''active''"
      and inventory: "findInventory s (product_id product) = Some inventory"
      and q: "inv_quantity inventory = q"
      and k: "p_quantity params = Some k" "q < k"
  shows "createOrder s now params = (Inl (InsufficientStock q), s)"
proof -
  have "q < requestedQuantity params"
    using k by (simp add: requestedQuantity_def)
  then show ?thesis
    using account product active inventory q
    by (simp add: createOrder_def)
qed

theorem createOrder_beyond_stock_witness:
  "createOrder shop 100 (request_of 7 3 (Some 6)) = (Inl (InsufficientStock 5), shop)"
proof -
  have account: "findAccount shop (p_AccountId (request_of 7 3 (Some 6))) = Some ann"
    by (simp add: findAccount_def shop_def request_of_def ann_def)
  have product: "findProduct shop (p_productId (request_of 7 3 (Some 6))) = Some lamp"
    by (simp add: findProduct_def shop_def request_of_def lamp_def)
  have active: "productStatus lamp = ''active''"
    by (simp add: lamp_def)
  have inventory: "findInventory shop (product_id lamp) = Some lamp_stock"
    by (simp add: findInventory_def shop_def lamp_def lamp_stock_def)
  have q: "inv_quantity lamp_stock = 5"
    by (simp add: lamp_stock_def)
  have k: "p_quantity (request_of 7 3 (Some 6)) = Some 6" "(5::int) < 6"
    by (simp_all add: request_of_def)
  show ?thesis
    by (rule createOrder_beyond_stock [OF account product active inventory q k])
qed

section \<open>The validation sequence of order creation\<close>

text \<open>
  Claim C9. \<open>createOrder\<close> validates fail-fast in a fixed order. A missing account gives
  \<open>AccountNotFound\<close> whatever the product is; with the account present, a missing product
  gives \<open>ProductNotFound\<close>; with the product present, a status other than \<open>active\<close>
  gives \<open>ProductUnavailable\<close> whatever the inventory is; with an active product, a
  missing inventory record gives \<open>InventoryMissing\<close>; only with all four in place is the
  requested quantity compared with the stock, and the call throws \<open>InsufficientStock\<close>
  exactly when the request exceeds it. Every failure leaves the database unchanged.
\<close>

theorem createOrder_validation_order:
  "(findAccount s (p_AccountId params) = None \<longrightarrow>
      createOrder s now params = (Inl AccountNotFound, s)) \<and>
   (findAccount s (p_AccountId params) = Some account \<and>
    findProduct s (p_productId params) = None \<longrightarrow>
      createOrder s now params = (Inl ProductNotFound, s)) \<and>
   (findAccount s (p_AccountId params) = Some account \<and>
    findProduct s (p_productId params) = Some product \<and>
    productStatus product \<noteq> ''active'' \<longrightarrow>
      createOrder s now params = (Inl ProductUnavailable, s)) \<and>
   (findAccount s (p_AccountId params) = Some account \<and>
    findProduct s (p_productId params) = Some product \<and>
    productStatus product = ''active'' \<and>
    findInventory s (product_id product) = None \<longrightarrow>
      createOrder s now params = (Inl InventoryMissing, s)) \<and>
   (findAccount s (p_AccountId params) = Some account \<and>
    findProduct s (p_productId params) = Some product \<and>
    productStatus product = ''active'' \<and>
    findInventory s (product_id product) = Some inventory \<longrightarrow>
      (if inv_quantity inventory < requestedQuantity params
       then createOrder s now params = (Inl (InsufficientStock (inv_quantity inventory)), s)
       else \<exists>detail. fst (createOrder s now params) = Inr detail))"
proof (intro conjI impI)
  assume "findAccount s (p_AccountId params) = None"
  then show "createOrder s now params = (Inl AccountNotFound, s)"
    by (simp add: createOrder_def)
next
  assume "findAccount s (p_AccountId params) = Some account \<and>
          findProduct s (p_productId params) = None"
  then show "createOrder s now params = (Inl ProductNotFound, s)"
    by (simp add: createOrder_def)
next
  assume "findAccount s (p_AccountId params) = Some account \<and>
          findProduct s (p_productId params) = Some product \<and>
          productStatus product \<noteq> ''active''"
  then show "createOrder s now params = (Inl ProductUnavailable, s)"
    by (simp add: createOrder_def)
next
  assume "findAccount s (p_AccountId params) = Some account \<and>
          findProduct s (p_productId params) = Some product \<and>
          productStatus product = ''active'' \<and>
          findInventory s (product_id product) = None"
  then show "createOrder s now params = (Inl InventoryMissing, s)"
    by (simp add: createOrder_def)
next
  assume found: "findAccount s (p_AccountId params) = Some account \<and>
          findProduct s (p_productId params) = Some product \<and>
          productStatus product = ''active'' \<and>
          findInventory s (product_id product) = Some inventory"
  show "if inv_quantity inventory < requestedQuantity params
        then createOrder s now params = (Inl (InsufficientStock (inv_quantity inventory)), s)
        else \<exists>detail. fst (createOrder s now params) = Inr detail"
  proof (cases "inv_quantity inventory < requestedQuantity params")
    case True
    with found show ?thesis
      by (simp add: createOrder_def)
  next
    case False
    then have enough: "requestedQuantity params \<le> inv_quantity inventory"
      by simp
    from found have account: "findAccount s (p_AccountId params) = Some account"
      and product: "findProduct s (p_productId params) = Some product"
      and active: "productStatus product = ''active''"
      and inventory: "findInventory s (product_id product) = Some inventory"
      by simp_all
    have "\<exists>detail. fst (createOrder s now params) = Inr detail"
      using createOrder_run [OF account product active inventory enough refl refl refl, of now]
      by simp
    with False show ?thesis by simp
  qed
qed


theorem createOrder_validation_order_witness:
  "createOrder shop 100 (request_of 99 99 (Some 6)) = (Inl AccountNotFound, shop) \<and>
   createOrder shop 100 (request_of 7 99 (Some 6)) = (Inl ProductNotFound, shop) \<and>
   createOrder shop 100 (request_of 7 4 (Some 6)) = (Inl ProductUnavailable, shop) \<and>
   createOrder shop 100 (request_of 7 5 (Some 6)) = (Inl InventoryMissing, shop) \<and>
   createOrder shop 100 (request_of 7 3 (Some 6)) = (Inl (InsufficientStock 5), shop) \<and>
   (\<exists>detail. fst (createOrder shop 100 (request_of 7 3 (Some 5))) = Inr detail)"
proof (intro conjI)
  show "createOrder shop 100 (request_of 99 99 (Some 6)) = (Inl AccountNotFound, shop)"
    using createOrder_validation_order [of shop "request_of 99 99 (Some 6)" 100]
    by (simp add: findAccount_def shop_def request_of_def)
next
  show "createOrder shop 100 (request_of 7 99 (Some 6)) = (Inl ProductNotFound, shop)"
    using createOrder_validation_order [of shop "request_of 7 99 (Some 6)" 100 ann]
    by (simp add: findAccount_def findProduct_def shop_def request_of_def ann_def)
next
  show "createOrder shop 100 (request_of 7 4 (Some 6)) = (Inl ProductUnavailable, shop)"
    using createOrder_validation_order
            [of shop "request_of 7 4 (Some 6)" 100 ann
                "\<lparr>product_id = 4, name = ''desk'', price = 250, productStatus = ''inactive'',
                  isAvailable = True\<rparr>"]
    by (simp add: findAccount_def findProduct_def shop_def request_of_def ann_def)
next
  show "createOrder shop 100 (request_of 7 5 (Some 6)) = (Inl InventoryMissing, shop)"
    using createOrder_validation_order
            [of shop "request_of 7 5 (Some 6)" 100 ann
                "\<lparr>product_id = 5, name = ''vase'', price = 40, productStatus = ''active'',
                  isAvailable = True\<rparr>"]
    by (simp add: findAccount_def findProduct_def findInventory_def shop_def request_of_def
          ann_def)
next
  show "createOrder shop 100 (request_of 7 3 (Some 6)) = (Inl (InsufficientStock 5), shop)"
    using createOrder_validation_order
            [of shop "request_of 7 3 (Some 6)" 100 ann lamp lamp_stock]
    by (simp add: findAccount_def findProduct_def findInventory_def shop_def request_of_def
          ann_def lamp_def lamp_stock_def requestedQuantity_def)
next
  show "\<exists>detail. fst (createOrder shop 100 (request_of 7 3 (Some 5))) = Inr detail"
    using createOrder_validation_order
            [of shop "request_of 7 3 (Some 5)" 100 ann lamp lamp_stock]
    by (simp add: findAccount_def findProduct_def findInventory_def shop_def request_of_def
          ann_def lamp_def lamp_stock_def requestedQuantity_def)
qed

section \<open>An explicit quantity of zero\<close>



section \<open>Rows after a write\<close>

text \<open>
  What a lookup finds after a row was saved: the saved row under its own key, the old
  row under every other key. Logging an activity and saving a product leave the order
  table alone.
\<close>

lemma find_replaced_key:
  assumes "find (\<lambda>r. key r = i) xs = Some old" and "key new = i"
  shows "find (\<lambda>r. key r = i) (map (\<lambda>x. if key x = key new then new else x) xs) = Some new"
  using assms by (induction xs) (auto split: if_splits)

lemma find_other_key:
  assumes "key new \<noteq> i"
  shows "find (\<lambda>r. key r = i) (map (\<lambda>x. if key x = key new then new else x) xs)
         = find (\<lambda>r. key r = i) xs"
  using assms by (induction xs) auto

lemma getOrderById_save_order_same:
  assumes "getOrderById s i = Some old" and "order_id new = i"
  shows "getOrderById (save_order s new) i = Some new"
proof -
  have "find (\<lambda>r. order_id r = i) (orders s) = Some old"
    using assms(1) by (simp add: getOrderById_def)
  from find_replaced_key [OF this assms(2)] show ?thesis
    by (simp add: getOrderById_def save_order_def)
qed

lemma getOrderById_save_order_other:
  "order_id new \<noteq> i \<Longrightarrow> getOrderById (save_order s new) i = getOrderById s i"
  by (simp add: getOrderById_def save_order_def find_other_key)

lemma getOrderById_logOrderActivity:
  "getOrderById (logOrderActivity s a oid action description ip br) i = getOrderById s i"
  by (simp add: getOrderById_def logOrderActivity_def Let_def)

lemma getOrderById_save_product:
  "getOrderById (save_product s p) i = getOrderById s i"
  by (simp add: getOrderById_def save_product_def)

lemma getOrderById_key: "getOrderById s i = Some r \<Longrightarrow> order_id r = i"
  unfolding getOrderById_def by (rule find_key_holds)

lemma findProduct_save_product_same:
  assumes "findProduct s i = Some old" and "product_id new = i"
  shows "findProduct (save_product s new) i = Some new"
proof -
  have "find (\<lambda>r. product_id r = i) (products s) = Some old"
    using assms(1) by (simp add: findProduct_def)
  from find_replaced_key [OF this assms(2)] show ?thesis
    by (simp add: findProduct_def save_product_def)
qed

lemma findProduct_untouched:
  "findProduct (logOrderActivity (save_order s r) a oid action description ip br) i
   = findProduct s i"
  by (simp add: findProduct_def logOrderActivity_def save_order_def Let_def)

lemma find_by_key_and:
  assumes "distinct (map key xs)" and "r \<in> set xs"
  shows "find (\<lambda>x. key x = key r \<and> Q x) xs = (if Q r then Some r else None)"
  using assms
proof (induction xs)
  case Nil
  then show ?case by simp
next
  case (Cons x xs)
  show ?case
  proof (cases "x = r")
    case True
    from Cons.prems(1) have "key x \<notin> key ` set xs" by simp
    with True have "\<forall>y \<in> set xs. key y \<noteq> key r" by (metis imageI)
    then have "find (\<lambda>x. key x = key r \<and> Q x) xs = None"
      unfolding find_None_iff by blast
    with True show ?thesis by simp
  next
    case False
    with Cons.prems have "r \<in> set xs" and "key x \<noteq> key r" by auto
    with Cons.IH Cons.prems(1) show ?thesis by simp
  qed
qed

section \<open>Transitions of a shipped order\<close>

text \<open>
  Claim C3, as amended. For every order whose status is \<open>shipped\<close>: \<open>cancelOrder\<close> fails
  and leaves the database unchanged; \<open>deliverOrder\<close> succeeds and sets the status to
  \<open>delivered\<close>; and \<open>processOrder\<close> succeeds as well, setting the status back to
  \<open>processing\<close>, since its only guard is the one against cancelled orders.
\<close>

theorem shipped_order_transitions:
  assumes found: "getOrderById s i = Some order"
      and shipped: "orderStatus order = Shipped"
  shows "cancelOrder s i a ip br = (Inl OrderNotCancellable, s) \<and>
         (\<exists>s'. deliverOrder s i = (Inr (), s') \<and>
               getOrderById s' i = Some (order\<lparr>orderStatus := Delivered\<rparr>)) \<and>
         (\<exists>s'. processOrder s i a ip br = (Inr (), s') \<and>
               getOrderById s' i = Some (order\<lparr>orderStatus := Processing\<rparr>))"
proof (intro conjI)
  show "cancelOrder s i a ip br = (Inl OrderNotCancellable, s)"
    using found shipped by (simp add: cancelOrder_def)
next
  have key: "order_id order = i"
    using found by (rule getOrderById_key)
  have "deliverOrder s i = (Inr (), save_order s (order\<lparr>orderStatus := Delivered\<rparr>))"
    using found shipped by (simp add: deliverOrder_def)
  moreover have "getOrderById (save_order s (order\<lparr>orderStatus := Delivered\<rparr>)) i
                 = Some (order\<lparr>orderStatus := Delivered\<rparr>)"
    using found key by (simp add: getOrderById_save_order_same)
  ultimately show "\<exists>s'. deliverOrder s i = (Inr (), s') \<and>
                        getOrderById s' i = Some (order\<lparr>orderStatus := Delivered\<rparr>)"
    by simp
next
  have key: "order_id order = i"
    using found by (rule getOrderById_key)
  define s' where "s' = snd (processOrder s i a ip br)"
  have run: "processOrder s i a ip br = (Inr (), s')"
    using found shipped by (simp add: processOrder_def s'_def Let_def)
  have "getOrderById s' i = Some (order\<lparr>orderStatus := Processing\<rparr>)"
    using found shipped key
    by (simp add: s'_def processOrder_def Let_def getOrderById_logOrderActivity
          getOrderById_save_order_same)
  with run show "\<exists>s'. processOrder s i a ip br = (Inr (), s') \<and>
                      getOrderById s' i = Some (order\<lparr>orderStatus := Processing\<rparr>)"
    by blast
qed

theorem shipped_order_transitions_witness:
  "cancelOrder shop 2 8 ''192.0.2.1'' ''Firefox'' = (Inl OrderNotCancellable, shop) \<and>
   (\<exists>s'. deliverOrder shop 2 = (Inr (), s') \<and>
         map_option orderStatus (getOrderById s' 2) = Some Delivered) \<and>
   (\<exists>s'. processOrder shop 2 8 ''192.0.2.1'' ''Firefox'' = (Inr (), s') \<and>
         map_option orderStatus (getOrderById s' 2) = Some Processing)"
proof -
  have found: "getOrderById shop 2 =
                 Some \<lparr>order_id = 2, AccountId = 8, productId = 3, quantity = 1,
                       totalAmount = 10, orderStatus = Shipped,
                       shippingAddress = ''2 Side St'', createdAt = 20\<rparr>"
    by (simp add: getOrderById_def shop_def)
  show ?thesis
    using shipped_order_transitions [OF found, of 8 "''192.0.2.1''" "''Firefox''"]
    by auto
qed

text \<open>
  Claim C3, as stated, asks \<open>processOrder\<close> to fail on a shipped order. Order 2 of the
  worked database is shipped, and \<open>processOrder\<close> returns normally and leaves it in status
  \<open>processing\<close>.
\<close>

theorem shipped_order_processOrder_counterexample:
  "map_option orderStatus (getOrderById shop 2) = Some Shipped \<and>
   fst (processOrder shop 2 8 ''192.0.2.1'' ''Firefox'') = Inr () \<and>
   map_option orderStatus
     (getOrderById (snd (processOrder shop 2 8 ''192.0.2.1'' ''Firefox'')) 2)
     = Some Processing"
  by (simp add: processOrder_def getOrderById_def shop_def Let_def save_order_def
        logOrderActivity_def)


section \<open>Cancellation\<close>

text \<open>
  Claim C4. For every existing order, \<open>cancelOrder\<close> succeeds exactly when the status is
  \<open>pending\<close> or \<open>processing\<close>. On success the order is returned and stored with status
  \<open>cancelled\<close>, the product the order refers to (if the catalog has it) has
  \<open>isAvailable = False\<close>, and the activity log grows by exactly one entry, tagged
  \<open>cancelled\<close>, for this order and the acting account. On a \<open>shipped\<close>, \<open>delivered\<close> or
  \<open>cancelled\<close> order the call throws and the database, and so the order and the product,
  are unchanged.
\<close>

theorem cancelOrder_by_status:
  assumes found: "getOrderById s i = Some order"
  shows "((\<exists>r. fst (cancelOrder s i a ip br) = Inr r) \<longleftrightarrow>
            orderStatus order = Pending \<or> orderStatus order = Processing) \<and>
         (orderStatus order = Pending \<or> orderStatus order = Processing \<longrightarrow>
            (\<exists>logged s'.
               cancelOrder s i a ip br = (Inr (order\<lparr>orderStatus := Cancelled\<rparr>), s') \<and>
               getOrderById s' i = Some (order\<lparr>orderStatus := Cancelled\<rparr>) \<and>
               findProduct s' (productId order)
                 = map_option (\<lambda>p. p\<lparr>isAvailable := False\<rparr>) (findProduct s (productId order)) \<and>
               activities s' = activities s @ [logged] \<and>
               act_action logged = ''cancelled'' \<and>
               act_orderId logged = i \<and>
               act_accountId logged = a)) \<and>
         (orderStatus order = Cancelled \<longrightarrow>
            cancelOrder s i a ip br = (Inl OrderAlreadyCancelled, s)) \<and>
         (orderStatus order = Shipped \<or> orderStatus order = Delivered \<longrightarrow>
            cancelOrder s i a ip br = (Inl OrderNotCancellable, s))"
proof -
  have key: "order_id order = i"
    using found by (rule getOrderById_key)
  have already: "cancelOrder s i a ip br = (Inl OrderAlreadyCancelled, s)"
    if "orderStatus order = Cancelled"
    using found that by (simp add: cancelOrder_def)
  have late: "cancelOrder s i a ip br = (Inl OrderNotCancellable, s)"
    if "orderStatus order = Shipped \<or> orderStatus order = Delivered"
    using found that by (auto simp: cancelOrder_def)
  have early: "\<exists>logged s'.
               cancelOrder s i a ip br = (Inr (order\<lparr>orderStatus := Cancelled\<rparr>), s') \<and>
               getOrderById s' i = Some (order\<lparr>orderStatus := Cancelled\<rparr>) \<and>
               findProduct s' (productId order)
                 = map_option (\<lambda>p. p\<lparr>isAvailable := False\<rparr>) (findProduct s (productId order)) \<and>
               activities s' = activities s @ [logged] \<and>
               act_action logged = ''cancelled'' \<and>
               act_orderId logged = i \<and>
               act_accountId logged = a"
    if open_status: "orderStatus order = Pending \<or> orderStatus order = Processing"
  proof -
    define order' where "order' = order\<lparr>orderStatus := Cancelled\<rparr>"
    define logged where
      "logged = \<lparr>act_accountId = a, act_orderId = i, act_action = ''cancelled'',
                  act_description = ''Cancelled order. Previous status: ''
                                      @ status_text (orderStatus order),
                  act_ipAddress = ip, act_browserInfo = br\<rparr>"
    define s2 where
      "s2 = logOrderActivity (save_order s order') a i ''cancelled''
              (''Cancelled order. Previous status: '' @ status_text (orderStatus order)) ip br"
    define s3 where
      "s3 = (case findProduct s2 (productId order) of
               None \<Rightarrow> s2
             | Some product \<Rightarrow> save_product s2 (product\<lparr>isAvailable := False\<rparr>))"
    have guards: "orderStatus order \<noteq> Cancelled" "orderStatus order \<noteq> Shipped"
      "orderStatus order \<noteq> Delivered"
      using open_status by auto
    have run: "cancelOrder s i a ip br = (Inr order', s3)"
      using found guards key
      by (simp add: cancelOrder_def Let_def order'_def s2_def s3_def split: option.splits)
    have row2: "getOrderById s2 i = Some order'"
      using found key
      by (simp add: s2_def order'_def getOrderById_logOrderActivity
            getOrderById_save_order_same)
    have row3: "getOrderById s3 i = Some order'"
      using row2 by (simp add: s3_def getOrderById_save_product split: option.splits)
    have prod2: "findProduct s2 (productId order) = findProduct s (productId order)"
      by (simp add: s2_def findProduct_untouched)
    have prod3: "findProduct s3 (productId order)
                 = map_option (\<lambda>p. p\<lparr>isAvailable := False\<rparr>) (findProduct s (productId order))"
    proof (cases "findProduct s (productId order)")
      case None
      with prod2 show ?thesis by (simp add: s3_def)
    next
      case (Some p)
      with prod2 have old: "findProduct s2 (productId order) = Some p" by simp
      then have "product_id p = productId order"
        unfolding findProduct_def by (rule find_key_holds)
      then have "findProduct (save_product s2 (p\<lparr>isAvailable := False\<rparr>)) (productId order)
                 = Some (p\<lparr>isAvailable := False\<rparr>)"
        using old by (simp add: findProduct_save_product_same)
      with Some old show ?thesis by (simp add: s3_def)
    qed
    have acts: "activities s3 = activities s @ [logged]"
      by (simp add: s3_def s2_def logged_def logOrderActivity_def save_order_def
            save_product_def Let_def split: option.splits)
    show ?thesis
      apply (rule exI [of _ logged], rule exI [of _ s3])
      using run row3 prod3 acts by (simp add: order'_def logged_def)
  qed
  have iff: "(\<exists>r. fst (cancelOrder s i a ip br) = Inr r) \<longleftrightarrow>
             orderStatus order = Pending \<or> orderStatus order = Processing"
  proof (cases "orderStatus order")
    case Pending
    with early show ?thesis by fastforce
  next
    case Processing
    with early show ?thesis by fastforce
  next
    case Shipped
    with late show ?thesis by simp
  next
    case Delivered
    with late show ?thesis by simp
  next
    case Cancelled
    with already show ?thesis by simp
  qed
  from iff early already late show ?thesis by blast
qed

theorem cancelOrder_by_status_witness:
  "(\<exists>logged s'.
      cancelOrder shop 1 7 ''192.0.2.1'' ''Firefox'' =
        (Inr \<lparr>order_id = 1, AccountId = 7, productId = 3, quantity = 3, totalAmount = 30,
              orderStatus = Cancelled, shippingAddress = ''1 Main St'', createdAt = 10\<rparr>, s') \<and>
      map_option orderStatus (getOrderById s' 1) = Some Cancelled \<and>
      map_option isAvailable (findProduct s' 3) = Some False \<and>
      activities s' = [logged] \<and> act_action logged = ''cancelled'') \<and>
   cancelOrder shop 3 7 ''192.0.2.1'' ''Firefox'' = (Inl OrderAlreadyCancelled, shop) \<and>
   cancelOrder shop 4 7 ''192.0.2.1'' ''Firefox'' = (Inl OrderNotCancellable, shop)"
proof (intro conjI)
  have found: "getOrderById shop 1 =
                 Some \<lparr>order_id = 1, AccountId = 7, productId = 3, quantity = 3,
                       totalAmount = 30, orderStatus = Pending,
                       shippingAddress = ''1 Main St'', createdAt = 10\<rparr>"
    by (simp add: getOrderById_def shop_def)
  have product: "findProduct shop 3 = Some lamp"
    by (simp add: findProduct_def shop_def lamp_def)
  have empty: "activities shop = []"
    by (simp add: shop_def)
  show "\<exists>logged s'.
      cancelOrder shop 1 7 ''192.0.2.1'' ''Firefox'' =
        (Inr \<lparr>order_id = 1, AccountId = 7, productId = 3, quantity = 3, totalAmount = 30,
              orderStatus = Cancelled, shippingAddress = ''1 Main St'', createdAt = 10\<rparr>, s') \<and>
      map_option orderStatus (getOrderById s' 1) = Some Cancelled \<and>
      map_option isAvailable (findProduct s' 3) = Some False \<and>
      activities s' = [logged] \<and> act_action logged = ''cancelled''"
    using cancelOrder_by_status [OF found, of 7 "''192.0.2.1''" "''Firefox''"]
    by (auto simp: product empty)
next
  have found: "getOrderById shop 3 =
                 Some \<lparr>order_id = 3, AccountId = 7, productId = 4, quantity = 2,
                       totalAmount = 500, orderStatus = Cancelled,
                       shippingAddress = ''1 Main St'', createdAt = 30\<rparr>"
    by (simp add: getOrderById_def shop_def)
  show "cancelOrder shop 3 7 ''192.0.2.1'' ''Firefox'' = (Inl OrderAlreadyCancelled, shop)"
    using cancelOrder_by_status [OF found, of 7 "''192.0.2.1''" "''Firefox''"]
    by simp
next
  have found: "getOrderById shop 4 =
                 Some \<lparr>order_id = 4, AccountId = 8, productId = 4, quantity = 1,
                       totalAmount = 250, orderStatus = Delivered,
                       shippingAddress = ''2 Side St'', createdAt = 40\<rparr>"
    by (simp add: getOrderById_def shop_def)
  show "cancelOrder shop 4 7 ''192.0.2.1'' ''Firefox'' = (Inl OrderNotCancellable, shop)"
    using cancelOrder_by_status [OF found, of 7 "''192.0.2.1''" "''Firefox''"]
    by simp
qed

section \<open>Primary keys\<close>

text \<open>
  The key of an order never changes and a new order gets a key above all others, so no
  sequence of requests makes two rows of the order table share a key.
\<close>

lemma keys_after_save_order: "map order_id (orders (save_order s r)) = map order_id (orders s)"
proof -
  have "(\<lambda>x. order_id (if order_id x = order_id r then r else x)) = order_id"
    by (simp add: fun_eq_iff)
  then show ?thesis
    by (simp add: save_order_def comp_def)
qed

lemma orders_after_logOrderActivity:
  "orders (logOrderActivity s a oid action description ip br) = orders s"
  by (simp add: logOrderActivity_def Let_def)

lemma orders_after_save_product: "orders (save_product s p) = orders s"
  by (simp add: save_product_def)

lemma keys_after_createOrder:
  assumes "distinct (map order_id (orders s))"
  shows "distinct (map order_id (orders (snd (createOrder s now params))))"
proof -
  have "new_order_id s \<notin> order_id ` set (orders s)"
    using new_order_id_fresh [of _ s] by fastforce
  with assms show ?thesis
    by (simp add: createOrder_def Let_def insert_order_def logOrderActivity_def
          save_inventory_def split: option.splits)
qed

lemma perform_keeps_keys:
  assumes "distinct (map order_id (orders s))"
  shows "distinct (map order_id (orders (perform s req)))"
proof (cases req)
  case (Create now params)
  with assms show ?thesis by (simp add: keys_after_createOrder)
next
  case (Update j params a ip br)
  with assms show ?thesis
    by (simp add: updateOrder_def Let_def orders_after_logOrderActivity keys_after_save_order
          split: option.splits)
next
  case (Cancel j a ip br)
  with assms show ?thesis
    by (simp add: cancelOrder_def Let_def orders_after_logOrderActivity keys_after_save_order
          orders_after_save_product split: option.splits)
next
  case (Process j a ip br)
  with assms show ?thesis
    by (simp add: processOrder_def Let_def orders_after_logOrderActivity keys_after_save_order
          split: option.splits)
next
  case (Ship j)
  with assms show ?thesis
    by (simp add: shipOrder_def keys_after_save_order split: option.splits)
next
  case (Deliver j)
  with assms show ?thesis
    by (simp add: deliverOrder_def keys_after_save_order split: option.splits)
qed

lemma run_keeps_keys:
  "distinct (map order_id (orders s)) \<Longrightarrow> distinct (map order_id (orders (run s reqs)))"
proof (induction reqs arbitrary: s)
  case Nil
  then show ?case by (simp add: run_def)
next
  case (Cons req reqs)
  from Cons.prems have "distinct (map order_id (orders (perform s req)))"
    by (rule perform_keeps_keys)
  then have "distinct (map order_id (orders (run (perform s req) reqs)))"
    by (rule Cons.IH)
  then show ?case by (simp add: run_def)
qed

section \<open>Tracking the status of an order\<close>

text \<open>
  Claim C6. Where \<open>id\<close> is the primary key of the order table, for every order in it
  \<open>trackOrderStatus\<close> returns exactly the order's status when the given account is the
  owning \<open>AccountId\<close>, and throws \<open>UnauthorizedAccess\<close> (the string
  \<^verbatim>\<open>Order not found or unauthorized access\<close>) for every other account. The function takes
  no role, so the outcome cannot depend on one.
\<close>

theorem trackOrderStatus_owner_only:
  assumes keys: "distinct (map order_id (orders s))"
      and row: "order \<in> set (orders s)"
  shows "trackOrderStatus s (order_id order) a =
           (if a = AccountId order then Inr (orderStatus order)
            else Inl UnauthorizedAccess)"
  using find_by_key_and [OF keys row, of "\<lambda>x. AccountId x = a"]
  by (auto simp: trackOrderStatus_def)

theorem trackOrderStatus_owner_only_witness:
  "trackOrderStatus shop 2 8 = Inr Shipped \<and>
   trackOrderStatus shop 2 7 = Inl UnauthorizedAccess"
proof -
  have keys: "distinct (map order_id (orders shop))"
    by (simp add: shop_def)
  have row: "\<lparr>order_id = 2, AccountId = 8, productId = 3, quantity = 1, totalAmount = 10,
              orderStatus = Shipped, shippingAddress = ''2 Side St'', createdAt = 20\<rparr>
             \<in> set (orders shop)"
    by (simp add: shop_def)
  show ?thesis
    using trackOrderStatus_owner_only [OF keys row, of 8]
          trackOrderStatus_owner_only [OF keys row, of 7]
    by simp
qed

section \<open>Listing orders\<close>

text \<open>
  The listing holds exactly the projections of the selected rows, each as often as the
  table has it, and the creation times fall along it.
\<close>

lemma createdAt_of_listings: "l_createdAt \<circ> listing_of s role = createdAt"
  by (simp add: fun_eq_iff listing_of_def)

lemma getAllOrders_descending:
  "sorted_wrt (\<lambda>x y. y \<le> x) (map l_createdAt (getAllOrders s role a))"
proof -
  let ?rows = "filter (whereCondition role a) (orders s)"
  have "sorted (map createdAt (sort_key createdAt ?rows))"
    by (rule sorted_sort_key)
  then have "sorted_wrt (\<lambda>x y. y \<le> x) (rev (map createdAt (sort_key createdAt ?rows)))"
    by (simp add: sorted_wrt_rev)
  then show ?thesis
    by (simp add: getAllOrders_def createdAt_of_listings rev_map)
qed

lemma getAllOrders_rows:
  "mset (getAllOrders s role a)
   = mset (map (listing_of s role) (filter (whereCondition role a) (orders s)))"
  by (simp add: getAllOrders_def)

text \<open>
  Claim C5. For every account \<open>a\<close>, \<open>getAllOrders\<close> for the role \<open>User\<close> returns exactly
  the orders of \<open>a\<close> that are not cancelled, so every row belongs to \<open>a\<close> and none is
  cancelled. For any other role it returns exactly the orders, of all accounts, whose
  status is \<open>pending\<close>, \<open>processing\<close>, \<open>shipped\<close> or \<open>delivered\<close>, so never a cancelled
  one. In both cases the rows are sorted by creation time, descending.
\<close>

theorem getAllOrders_visibility:
  "mset (getAllOrders s ''User'' a)
     = mset (map (listing_of s ''User'')
          (filter (\<lambda>r. AccountId r = a \<and> orderStatus r \<noteq> Cancelled) (orders s))) \<and>
   (\<forall>l \<in> set (getAllOrders s ''User'' a). l_AccountId l = a \<and> l_orderStatus l \<noteq> Cancelled) \<and>
   (role \<noteq> ''User'' \<longrightarrow>
      mset (getAllOrders s role a)
        = mset (map (listing_of s role)
             (filter (\<lambda>r. orderStatus r \<in> {Pending, Processing, Shipped, Delivered})
                (orders s))) \<and>
      (\<forall>l \<in> set (getAllOrders s role a).
         l_orderStatus l \<in> {Pending, Processing, Shipped, Delivered} \<and>
         l_orderStatus l \<noteq> Cancelled)) \<and>
   sorted_wrt (\<lambda>x y. y \<le> x) (map l_createdAt (getAllOrders s role a))"
proof (intro conjI impI)
  show "mset (getAllOrders s ''User'' a)
     = mset (map (listing_of s ''User'')
          (filter (\<lambda>r. AccountId r = a \<and> orderStatus r \<noteq> Cancelled) (orders s)))"
    by (simp add: getAllOrders_rows whereCondition_def)
next
  show "\<forall>l \<in> set (getAllOrders s ''User'' a). l_AccountId l = a \<and> l_orderStatus l \<noteq> Cancelled"
    by (auto simp: getAllOrders_def whereCondition_def listing_of_def)
next
  assume "role \<noteq> ''User''"
  then show "mset (getAllOrders s role a)
        = mset (map (listing_of s role)
             (filter (\<lambda>r. orderStatus r \<in> {Pending, Processing, Shipped, Delivered})
                (orders s)))"
    by (simp add: getAllOrders_rows whereCondition_def)
next
  assume "role \<noteq> ''User''"
  then show "\<forall>l \<in> set (getAllOrders s role a).
         l_orderStatus l \<in> {Pending, Processing, Shipped, Delivered} \<and>
         l_orderStatus l \<noteq> Cancelled"
    by (auto simp: getAllOrders_def whereCondition_def listing_of_def)
next
  show "sorted_wrt (\<lambda>x y. y \<le> x) (map l_createdAt (getAllOrders s role a))"
    by (rule getAllOrders_descending)
qed

theorem getAllOrders_visibility_witness:
  "map l_id (getAllOrders shop ''User'' 7) = [5, 1] \<and>
   map l_id (getAllOrders shop ''Admin'' 7) = [5, 4, 2, 1] \<and>
   list_all (\<lambda>l. l_AccountId l = 7 \<and> l_orderStatus l \<noteq> Cancelled)
     (getAllOrders shop ''User'' 7) \<and>
   list_all (\<lambda>l. l_orderStatus l \<in> {Pending, Processing, Shipped, Delivered})
     (getAllOrders shop ''Admin'' 7) \<and>
   sorted_wrt (\<lambda>x y. y \<le> x) (map l_createdAt (getAllOrders shop ''Admin'' 7))"
proof -
  have user: "map l_id (getAllOrders shop ''User'' 7) = [5, 1]"
    by (simp add: getAllOrders_def whereCondition_def listing_of_def shop_def)
  have admin: "map l_id (getAllOrders shop ''Admin'' 7) = [5, 4, 2, 1]"
    by (simp add: getAllOrders_def whereCondition_def listing_of_def shop_def)
  have role: "''Admin'' \<noteq> ''User''"
    by simp
  from getAllOrders_visibility [of shop 7 "''Admin''"] role user admin
  show ?thesis unfolding list_all_iff by blast
qed

section \<open>Querying the activities of an order\<close>

text \<open>
  Claim C8 says that for an existing order \<open>getOrderActivities\<close> returns what the activity
  logger's query returns. Order 1 of the worked database exists, and the call throws a
  \<open>ReferenceError\<close> instead: the identifier \<^verbatim>\<open>orderActivityLogger\<close> is not bound in the
  module. For the key 99, which no order has, the call throws \<open>OrderNotFound\<close>, as the
  claim says.
\<close>

theorem getOrderActivities_throws:
  "map_option order_id (getOrderById shop 1) = Some 1 \<and>
   getOrderActivities shop 1 7 () = Inl (ReferenceError ''orderActivityLogger'') \<and>
   getOrderActivities shop 99 7 () = Inl OrderNotFound"
  by (simp add: getOrderActivities_def getOrderById_def shop_def)

section \<open>The total amount of an order over time\<close>

text \<open>
  One request at a time: a row that is in the order table stays there, and its
  \<open>totalAmount\<close> stays what it was unless the request is an update of this very order
  whose bag carries that column.
\<close>

lemma save_order_keeps_amount:
  assumes row: "getOrderById s i = Some r"
      and old: "getOrderById s j = Some old"
      and key: "order_id new = order_id old"
      and amount: "i = j \<Longrightarrow> totalAmount new = totalAmount old"
  shows "\<exists>r'. getOrderById (save_order s new) i = Some r' \<and> totalAmount r' = totalAmount r"
proof (cases "i = j")
  case True
  with row old have same: "old = r" by simp
  have "order_id new = i"
    using key old True by (simp add: getOrderById_key)
  with row have "getOrderById (save_order s new) i = Some new"
    by (rule getOrderById_save_order_same)
  with amount True same show ?thesis by simp
next
  case False
  have "order_id old = j"
    using old by (rule getOrderById_key)
  with key False have "order_id new \<noteq> i" by simp
  then have "getOrderById (save_order s new) i = getOrderById s i"
    by (rule getOrderById_save_order_other)
  with row show ?thesis by simp
qed

lemma createOrder_keeps_rows:
  assumes "getOrderById s i = Some r"
  shows "getOrderById (snd (createOrder s now params)) i = Some r"
  using assms
  by (simp add: createOrder_def Let_def insert_order_def logOrderActivity_def
        save_inventory_def getOrderById_def find_append_eq split: option.splits)

lemma assign_keeps_amount:
  "u_totalAmount p = None \<Longrightarrow> totalAmount (assign r p) = totalAmount r"
  by (simp add: assign_def)

lemma assign_keeps_key: "order_id (assign r p) = order_id r"
  by (simp add: assign_def)

lemma perform_keeps_amount:
  assumes row: "getOrderById s i = Some r"
      and plain: "\<not> overwrites_totalAmount i req"
  shows "\<exists>r'. getOrderById (perform s req) i = Some r' \<and> totalAmount r' = totalAmount r"
proof (cases req)
  case (Create now params)
  with row show ?thesis by (simp add: createOrder_keeps_rows)
next
  case (Update j params a ip br)
  with plain have bag: "i = j \<Longrightarrow> u_totalAmount params = None" by simp
  show ?thesis
  proof (cases "getOrderById s j")
    case None
    with Update row show ?thesis by (simp add: updateOrder_def)
  next
    case (Some old)
    have "\<exists>r'. getOrderById (save_order s (assign old params)) i = Some r' \<and>
               totalAmount r' = totalAmount r"
      using row Some by (rule save_order_keeps_amount)
                        (simp_all add: assign_keeps_key assign_keeps_amount bag)
    with Update Some row show ?thesis
      by (simp add: updateOrder_def Let_def getOrderById_logOrderActivity)
  qed
next
  case (Cancel j a ip br)
  show ?thesis
  proof (cases "getOrderById s j")
    case None
    with Cancel row show ?thesis by (simp add: cancelOrder_def)
  next
    case (Some old)
    have "\<exists>r'. getOrderById (save_order s (old\<lparr>orderStatus := Cancelled\<rparr>)) i = Some r' \<and>
               totalAmount r' = totalAmount r"
      using row Some by (rule save_order_keeps_amount) simp_all
    with Cancel Some row show ?thesis
      by (simp add: cancelOrder_def Let_def getOrderById_logOrderActivity
            getOrderById_save_product split: option.splits)
  qed
next
  case (Process j a ip br)
  show ?thesis
  proof (cases "getOrderById s j")
    case None
    with Process row show ?thesis by (simp add: processOrder_def)
  next
    case (Some old)
    have "\<exists>r'. getOrderById (save_order s (old\<lparr>orderStatus := Processing\<rparr>)) i = Some r' \<and>
               totalAmount r' = totalAmount r"
      using row Some by (rule save_order_keeps_amount) simp_all
    with Process Some row show ?thesis
      by (simp add: processOrder_def Let_def getOrderById_logOrderActivity)
  qed
next
  case (Ship j)
  show ?thesis
  proof (cases "getOrderById s j")
    case None
    with Ship row show ?thesis by (simp add: shipOrder_def)
  next
    case (Some old)
    have "\<exists>r'. getOrderById (save_order s (old\<lparr>orderStatus := Shipped\<rparr>)) i = Some r' \<and>
               totalAmount r' = totalAmount r"
      using row Some by (rule save_order_keeps_amount) simp_all
    with Ship Some row show ?thesis
      by (simp add: shipOrder_def)
  qed
next
  case (Deliver j)
  show ?thesis
  proof (cases "getOrderById s j")
    case None
    with Deliver row show ?thesis by (simp add: deliverOrder_def)
  next
    case (Some old)
    have "\<exists>r'. getOrderById (save_order s (old\<lparr>orderStatus := Delivered\<rparr>)) i = Some r' \<and>
               totalAmount r' = totalAmount r"
      using row Some by (rule save_order_keeps_amount) simp_all
    with Deliver Some row show ?thesis
      by (simp add: deliverOrder_def)
  qed
qed

text \<open>
  Claim C7, as amended. For every order in the store, no sequence of \<open>createOrder\<close>,
  \<open>updateOrder\<close>, \<open>cancelOrder\<close>, \<open>processOrder\<close>, \<open>shipOrder\<close> and \<open>deliverOrder\<close> calls
  alters the order's \<open>totalAmount\<close>, unless one of them is an \<open>updateOrder\<close> call on that
  order whose params carry \<open>totalAmount\<close>; the order is still in the store afterwards.
\<close>

theorem totalAmount_kept_unless_overwritten:
  assumes "getOrderById s i = Some r"
      and "\<forall>req \<in> set reqs. \<not> overwrites_totalAmount i req"
  shows "\<exists>r'. getOrderById (run s reqs) i = Some r' \<and> totalAmount r' = totalAmount r"
  using assms
proof (induction reqs arbitrary: s r)
  case Nil
  then show ?case by (simp add: run_def)
next
  case (Cons req reqs)
  from Cons.prems have "\<not> overwrites_totalAmount i req" by simp
  with Cons.prems(1) obtain r1 where
    step: "getOrderById (perform s req) i = Some r1" and same: "totalAmount r1 = totalAmount r"
    using perform_keeps_amount by blast
  from Cons.prems have "\<forall>req \<in> set reqs. \<not> overwrites_totalAmount i req" by simp
  with step have "\<exists>r'. getOrderById (run (perform s req) reqs) i = Some r' \<and>
                       totalAmount r' = totalAmount r1"
    by (rule Cons.IH)
  with same show ?case by (simp add: run_def)
qed

theorem totalAmount_kept_unless_overwritten_witness:
  "\<exists>r'. getOrderById
          (run shop
             [Update 1 (empty_patch\<lparr>u_quantity := Some 9, u_orderStatus := Some Shipped\<rparr>)
                7 ''192.0.2.1'' ''Firefox'',
              Update 2 (empty_patch\<lparr>u_totalAmount := Some 0\<rparr>) 8 ''192.0.2.1'' ''Firefox'',
              Process 1 7 ''192.0.2.1'' ''Firefox'',
              Ship 1,
              Deliver 1,
              Cancel 1 7 ''192.0.2.1'' ''Firefox'',
              Create 100 (request_of 7 3 (Some 2))]) 1 = Some r' \<and>
        totalAmount r' = 30"
proof -
  have row: "getOrderById shop 1 =
               Some \<lparr>order_id = 1, AccountId = 7, productId = 3, quantity = 3,
                     totalAmount = 30, orderStatus = Pending,
                     shippingAddress = ''1 Main St'', createdAt = 10\<rparr>"
    by (simp add: getOrderById_def shop_def)
  have plain: "\<forall>req \<in> set
             [Update 1 (empty_patch\<lparr>u_quantity := Some 9, u_orderStatus := Some Shipped\<rparr>)
                7 ''192.0.2.1'' ''Firefox'',
              Update 2 (empty_patch\<lparr>u_totalAmount := Some 0\<rparr>) 8 ''192.0.2.1'' ''Firefox'',
              Process 1 7 ''192.0.2.1'' ''Firefox'',
              Ship 1,
              Deliver 1,
              Cancel 1 7 ''192.0.2.1'' ''Firefox'',
              Create 100 (request_of 7 3 (Some 2))]. \<not> overwrites_totalAmount 1 req"
    by (simp add: empty_patch_def)
  from totalAmount_kept_unless_overwritten [OF row plain]
  show ?thesis by simp
qed

text \<open>
  Claim C7, as stated, lets no \<open>updateOrder\<close> call alter the amount. Order 1 of the worked
  database has \<open>totalAmount = 30\<close>; an update whose params are
  \<^verbatim>\<open>{ totalAmount: 0 }\<close> succeeds, and the order is returned and stored with
  \<open>totalAmount = 0\<close>.
\<close>

theorem updateOrder_overwrites_totalAmount_counterexample:
  "map_option totalAmount (getOrderById shop 1) = Some 30 \<and>
   fst (updateOrder shop 1 (empty_patch\<lparr>u_totalAmount := Some 0\<rparr>) 7 ''192.0.2.1'' ''Firefox'')
     = Inr \<lparr>order_id = 1, AccountId = 7, productId = 3, quantity = 3, totalAmount = 0,
            orderStatus = Pending, shippingAddress = ''1 Main St'', createdAt = 10\<rparr> \<and>
   map_option totalAmount
     (getOrderById
        (snd (updateOrder shop 1 (empty_patch\<lparr>u_totalAmount := Some 0\<rparr>) 7
                ''192.0.2.1'' ''Firefox'')) 1)
     = Some 0"
  by (simp add: updateOrder_def getOrderById_def shop_def Let_def save_order_def
        logOrderActivity_def assign_def empty_patch_def)

end
